theory Spec2Isabelle
  imports Main
begin

section \<open>Data model\<close>

text \<open>
  Values decoded from an inbound JSON payload. Python's \<open>json.loads\<close> yields \<open>None\<close>,
  booleans, numbers, strings, lists and dicts; floating-point numbers are left out of
  the model. A dict is the association list of its items (keys distinct).
\<close>

datatype json =
    JNull
  | JBool bool
  | JInt int
  | JStr string
  | JArr "json list"
  | JObj "(string \<times> json) list"

text \<open>The identity of a \<open>WebSocket\<close> object handed to the endpoint.\<close>

datatype websocket = WebSocket nat

text \<open>
  Elements of a subscription set. The methods declare \<open>topic: str\<close>, but the endpoint
  passes the decoded value unchecked, so a hashable non-string can enter the set as
  well: \<open>None\<close>, an integer, or a boolean, which Python's set identifies with \<open>0\<close> or
  \<open>1\<close>.
\<close>

datatype topic = Topic string | NumTopic int | NoneTopic

text \<open>The \<open>status\<close> field of a \<open>container_action_result\<close> message.\<close>

datatype status = In_progress | Success | Error

text \<open>
  A piece of a message text: literal text, \<open>str(v)\<close> of a decoded value, or
  \<open>s.capitalize()\<close> of a string; the last two are Python built-ins and are kept
  symbolic.
\<close>

datatype piece = Lit string | Str json | Capitalized string

text \<open>An entry of the list returned by \<open>get_docker_containers\<close> (line 304).\<close>

record container =
  cont_id :: string
  cont_name :: string
  cont_image :: string
  cont_status :: string
  cont_ports :: string
  cont_full_status :: string

text \<open>
  The server-to-client messages, one constructor per dict literal that
  \<open>websocket.py\<close> passes to \<open>send_personal_message\<close>; the constructor is the literal's
  \<open>type\<close> field and the arguments are its other fields in the order written.
  \<open>Container_logs\<close> omits \<open>follow\<close>, which the source always sets to \<open>False\<close>.
\<close>

datatype message =
    System_info json
  | Metrics json
  | Processes_data json
  | Process_kill_result json bool "piece list"
  | Containers_data "container list"
  | Container_action_result json json status "piece list"
  | Container_logs json string json
  | Container_logs_error json string
  | Network_stats json
  | Error_msg string

text \<open>
  The coroutine an \<open>asyncio.Task\<close> wraps, with its arguments: the connection id first,
  then \<open>container_id, action\<close>, respectively \<open>container_id, tail, follow\<close>.
\<close>

datatype coroutine =
    HandleContainerAction string json json
  | StreamContainerLogs string json json json

text \<open>
  The messages a background task sends, and the point a task has reached: scheduled and
  not started (\<open>Pending\<close>), suspended in the \<open>await\<close> of \<open>send_text\<close> of its first or of
  its second transport write, with the socket and the message of that write, ended
  (\<open>Finished\<close>), or cancelled.
\<close>

datatype task_message =
    Action_result json json status "piece list"
  | Logs json string json
  | Logs_error json string

datatype task_state =
    Pending
  | First_send websocket task_message
  | Second_send websocket task_message
  | Finished
  | Cancelled

type_synonym task = "coroutine \<times> task_state"

text \<open>
  The observable effects, in the order they happen: a call of
  \<open>send_personal_message\<close> (\<open>Push\<close>), a \<open>send_text\<close> on a socket that returned or
  raised, with its outcome (\<open>Write\<close>), a call of \<open>execute_container_action\<close> (\<open>Exec\<close>),
  and a call of \<open>Task.cancel\<close> (\<open>Cancel\<close>). A \<open>send_text\<close> that is interrupted by a
  cancellation records nothing.
\<close>

datatype event =
    Push string message
  | Write websocket message bool
  | Exec json string
  | Cancel nat

text \<open>
  The three dictionaries of \<open>ConnectionManager\<close>, the tasks created so far by
  \<open>asyncio.create_task\<close> (a task handle is its index in \<open>tasks\<close>), and the effects so
  far.
\<close>

record world =
  active_connections :: "string \<rightharpoonup> websocket"
  subscriptions :: "string \<rightharpoonup> topic set"
  background_tasks :: "string \<rightharpoonup> nat"
  tasks :: "task list"
  trace :: "event list"

definition init :: world where
  "init = \<lparr>active_connections = Map.empty, subscriptions = Map.empty,
            background_tasks = Map.empty, tasks = [], trace = []\<rparr>"

definition log :: "event \<Rightarrow> world \<Rightarrow> world" where
  "log e w = w\<lparr>trace := trace w @ [e]\<rparr>"


section \<open>ConnectionManager\<close>

text \<open>
  \<open>Task.cancel()\<close>: a task that is done is left as it is; a task that is scheduled or
  suspended in an \<open>await\<close> is cancelled: \<open>CancelledError\<close> is raised in it where it
  waits. The coroutines catch \<open>Exception\<close> only, which \<open>CancelledError\<close> is not, so a
  cancelled task produces nothing further.
\<close>

definition cancel :: "nat \<Rightarrow> world \<Rightarrow> world" where
  "cancel t w =
     (let w1 = log (Cancel t) w in
      if t < length (tasks w1) \<and> snd (tasks w1 ! t) \<notin> {Finished, Cancelled}
      then w1\<lparr>tasks := (tasks w1)[t := (fst (tasks w1 ! t), Cancelled)]\<rparr>
      else w1)"

text \<open>
  \<open>connect\<close>: \<open>websocket.accept()\<close> either raises (\<open>accepted = False\<close>), and nothing is
  stored, or returns, and both dictionaries are assigned.
\<close>

definition connect :: "websocket \<Rightarrow> string \<Rightarrow> bool \<Rightarrow> world \<Rightarrow> world option" where
  "connect ws connection_id accepted w =
     (if accepted
      then Some (w\<lparr>active_connections := (active_connections w)(connection_id \<mapsto> ws),
                   subscriptions := (subscriptions w)(connection_id \<mapsto> {})\<rparr>)
      else None)"

definition disconnect :: "string \<Rightarrow> world \<Rightarrow> world" where
  "disconnect connection_id w =
     (let w1 = w\<lparr>active_connections := (active_connections w)(connection_id := None)\<rparr>;
          w2 = w1\<lparr>subscriptions := (subscriptions w1)(connection_id := None)\<rparr>
      in case background_tasks w2 connection_id of
           None \<Rightarrow> w2
         | Some t \<Rightarrow>
             (cancel t w2)\<lparr>background_tasks := (background_tasks w2)(connection_id := None)\<rparr>)"

text \<open>
  \<open>send_personal_message\<close>: \<open>sent\<close> is the outcome of the body of the \<open>try\<close>
  (\<open>json.dumps\<close> and \<open>send_text\<close>); \<open>False\<close> means it raised.
\<close>

definition send_personal_message :: "message \<Rightarrow> string \<Rightarrow> bool \<Rightarrow> world \<Rightarrow> world" where
  "send_personal_message m connection_id sent w =
     (let w1 = log (Push connection_id m) w in
      case active_connections w1 connection_id of
        None \<Rightarrow> w1
      | Some ws \<Rightarrow>
          if sent then log (Write ws m True) w1
          else disconnect connection_id (log (Write ws m False) w1))"

text \<open>
  The two halves of \<open>send_personal_message\<close> as a coroutine: up to the \<open>await\<close> of
  \<open>send_text\<close>, where the caller is suspended on the socket found for the key (no
  socket: nothing is awaited and the call returns at once), and from the moment
  \<open>send_text\<close> returns or raises.
\<close>

definition send_call :: "message \<Rightarrow> string \<Rightarrow> world \<Rightarrow> websocket option \<times> world" where
  "send_call m connection_id w =
     (let w1 = log (Push connection_id m) w in (active_connections w1 connection_id, w1))"

definition send_return :: "websocket \<Rightarrow> message \<Rightarrow> string \<Rightarrow> bool \<Rightarrow> world \<Rightarrow> world" where
  "send_return ws m connection_id sent w =
     (if sent then log (Write ws m True) w
      else disconnect connection_id (log (Write ws m False) w))"

definition subscribe :: "string \<Rightarrow> topic \<Rightarrow> world \<Rightarrow> world" where
  "subscribe connection_id t w =
     (case subscriptions w connection_id of
        None \<Rightarrow> w
      | Some S \<Rightarrow> w\<lparr>subscriptions := (subscriptions w)(connection_id \<mapsto> insert t S)\<rparr>)"

definition unsubscribe :: "string \<Rightarrow> topic \<Rightarrow> world \<Rightarrow> world" where
  "unsubscribe connection_id t w =
     (case subscriptions w connection_id of
        None \<Rightarrow> w
      | Some S \<Rightarrow> w\<lparr>subscriptions := (subscriptions w)(connection_id \<mapsto> S - {t})\<rparr>)"


section \<open>Python string operations used by the collaborators\<close>

text \<open>
  A string is the list of its code points, which are those below 256 here; \<open>is_space\<close>
  is \<open>str.isspace\<close> on them (\<open>0x85\<close> is NEL, \<open>0xA0\<close> the no-break space).
\<close>

definition is_space :: "char \<Rightarrow> bool" where
  "is_space c =
     (c \<in> set [CHR 0x09, CHR 0x0A, CHR 0x0B, CHR 0x0C, CHR 0x0D, CHR 0x1C, CHR 0x1D,
                CHR 0x1E, CHR 0x1F, CHR '' '', CHR 0x85, CHR 0xA0])"

definition strip :: "string \<Rightarrow> string" where
  "strip s = rev (dropWhile is_space (rev (dropWhile is_space s)))"

fun split_on :: "char \<Rightarrow> string \<Rightarrow> string list" where
  "split_on sep [] = [[]]"
| "split_on sep (c # cs) =
     (if c = sep then [] # split_on sep cs
      else (case split_on sep cs of
              [] \<Rightarrow> [[c]]
            | p # ps \<Rightarrow> (c # p) # ps))"

fun contains :: "string \<Rightarrow> string \<Rightarrow> bool" where
  "contains sub [] = (sub = [])"
| "contains sub (c # cs) = (take (length sub) (c # cs) = sub \<or> contains sub cs)"

definition type_name :: "json \<Rightarrow> string" where
  "type_name v =
     (case v of
        JNull \<Rightarrow> ''NoneType''
      | JBool _ \<Rightarrow> ''bool''
      | JInt _ \<Rightarrow> ''int''
      | JStr _ \<Rightarrow> ''str''
      | JArr _ \<Rightarrow> ''list''
      | JObj _ \<Rightarrow> ''dict'')"

text \<open>The text of the \<open>AttributeError\<close> raised by \<open>v.attr\<close> on a value without \<open>attr\<close>.\<close>

definition attribute_error :: "json \<Rightarrow> string \<Rightarrow> string" where
  "attribute_error v attr =
     [CHR 0x27] @ type_name v @ [CHR 0x27] @ '' object has no attribute ''
       @ [CHR 0x27] @ attr @ [CHR 0x27]"

text \<open>Python's truth value of a decoded value (\<open>if topic:\<close>).\<close>

definition truthy :: "json \<Rightarrow> bool" where
  "truthy v =
     (case v of
        JNull \<Rightarrow> False
      | JBool b \<Rightarrow> b
      | JInt n \<Rightarrow> n \<noteq> 0
      | JStr s \<Rightarrow> s \<noteq> []
      | JArr xs \<Rightarrow> xs \<noteq> []
      | JObj kvs \<Rightarrow> kvs \<noteq> [])"

text \<open>\<open>message.get(key, default)\<close> on a dict.\<close>

definition dict_get :: "(string \<times> json) list \<Rightarrow> string \<Rightarrow> json \<Rightarrow> json" where
  "dict_get d k dflt = (case map_of d k of None \<Rightarrow> dflt | Some v \<Rightarrow> v)"


section \<open>Collaborators (\<open>linux_utils.py\<close>)\<close>

text \<open>
  The outcome of \<open>subprocess.run\<close>: a completed process with its return code, stdout
  and stderr, or one of the exceptions the callers distinguish; \<open>OtherError\<close> carries
  \<open>str(e)\<close> of any other exception.
\<close>

datatype proc =
    Completed int string string
  | TimeoutExpired
  | FileNotFoundError
  | OtherError string

text \<open>
  The outcome of a \<open>psutil\<close> call that raised; each exception carries its \<open>str(e)\<close>.
\<close>

datatype psutil_exc =
    NoSuchProcess string
  | AccessDenied string
  | Ps_TimeoutExpired string
  | OtherExc string

text \<open>
  What the operating system answers during one step: the outcome of a transport write
  that ends in the step (\<open>wr\<close> for a write of the endpoint and for the first write of a
  task, \<open>wr2\<close> for the second write of a task), of the calls \<open>psutil.Process(pid)\<close>,
  \<open>proc.terminate()\<close>, \<open>proc.wait(timeout=5)\<close> and \<open>proc.kill()\<close> (\<open>None\<close>: returned),
  of the \<open>docker\<close> subprocess, and of the platform queries behind the system
  information, metrics, process list and network statistics (\<open>Inl\<close>: raised, with
  \<open>str(e)\<close>).
\<close>

record env =
  wr :: bool
  wr2 :: bool
  ps_Process :: "psutil_exc option"
  ps_terminate :: "psutil_exc option"
  ps_wait :: "psutil_exc option"
  ps_kill :: "psutil_exc option"
  docker :: proc
  os_query :: "string + json"

definition get_system_info :: "string + json \<Rightarrow> string + json" where
  "get_system_info q =
     (case q of
        Inl e \<Rightarrow> Inl (''Failed to get system info: '' @ e)
      | Inr info \<Rightarrow> Inr info)"

definition get_system_metrics :: "string + json \<Rightarrow> string + json" where
  "get_system_metrics q =
     (case q of
        Inl e \<Rightarrow> Inl (''Failed to get system metrics: '' @ e)
      | Inr info \<Rightarrow> Inr info)"

text \<open>
  \<open>get_processes\<close> returns the empty list when anything raises; the selection among
  the process table is not modelled, its result is the parameter.
\<close>

definition get_processes :: "string + json \<Rightarrow> json" where
  "get_processes q = (case q of Inl e \<Rightarrow> JArr [] | Inr processes \<Rightarrow> processes)"

text \<open>The three \<open>except\<close> clauses of \<open>kill_process\<close>.\<close>

definition kill_process_except :: "psutil_exc \<Rightarrow> string + bool" where
  "kill_process_except e =
     (case e of
        NoSuchProcess _ \<Rightarrow> Inl ''Process not found''
      | AccessDenied _ \<Rightarrow> Inl ''Permission denied to kill process''
      | Ps_TimeoutExpired s \<Rightarrow> Inl (''Failed to kill process: '' @ s)
      | OtherExc s \<Rightarrow> Inl (''Failed to kill process: '' @ s))"

definition kill_process :: "env \<Rightarrow> string + bool" where
  "kill_process p =
     (case ps_Process p of
        Some e \<Rightarrow> kill_process_except e
      | None \<Rightarrow>
         (case ps_terminate p of
            Some e \<Rightarrow> kill_process_except e
          | None \<Rightarrow>
             (case ps_wait p of
                None \<Rightarrow> Inr True
              | Some (Ps_TimeoutExpired _) \<Rightarrow>
                  (case ps_kill p of
                     Some e \<Rightarrow> kill_process_except e
                   | None \<Rightarrow> Inr True)
              | Some e \<Rightarrow> kill_process_except e)))"

text \<open>
  \<open>get_docker_containers\<close> as defined at line 304. The module defines the name twice;
  this later definition is the one the name is bound to when \<open>websocket.py\<close> and
  \<open>app.py\<close> import it.
\<close>

definition health_status :: "string \<Rightarrow> string" where
  "health_status status =
     (if contains ''Up'' status then
        (if contains ''healthy'' status then ''healthy''
         else if contains ''unhealthy'' status then ''unhealthy''
         else ''running'')
      else if contains ''Exited'' status then ''stopped''
      else if contains ''Created'' status then ''created''
      else ''unknown'')"

definition container_of_line :: "string \<Rightarrow> container option" where
  "container_of_line line =
     (if strip line \<noteq> [] then
        (let parts = split_on (CHR 0x09) line in
         if length parts \<ge> 4 then
           Some \<lparr>cont_id = parts ! 0, cont_name = parts ! 1, cont_image = parts ! 2,
                 cont_status = health_status (parts ! 3),
                 cont_ports = (if length parts > 4 then parts ! 4 else []),
                 cont_full_status = parts ! 3\<rparr>
         else None)
      else None)"

definition get_docker_containers :: "proc \<Rightarrow> string + container list" where
  "get_docker_containers r =
     (case r of
        Completed returncode out err \<Rightarrow>
          if returncode \<noteq> 0
          then Inl (''Failed to get containers: '' @ ''Docker ps command failed: '' @ err)
          else Inr (List.map_filter container_of_line (split_on (CHR 0x0A) (strip out)))
      | TimeoutExpired \<Rightarrow> Inl ''Docker command timed out''
      | FileNotFoundError \<Rightarrow> Inl ''Docker command not found''
      | OtherError e \<Rightarrow> Inl (''Failed to get containers: '' @ e))"

text \<open>
  The earlier definition of the same name (line 167), which the later one replaces. It
  runs \<open>docker --version\<close> first (\<open>version\<close>) and then \<open>docker ps\<close> (\<open>r\<close>); an entry is
  \<open>(id, name, image, status)\<close>.
\<close>

definition basic_of_line :: "string \<Rightarrow> (string \<times> string \<times> string \<times> string) option" where
  "basic_of_line line =
     (if strip line \<noteq> [] then
        (let parts = split_on (CHR 0x09) line in
         if length parts \<ge> 4 then
           Some (parts ! 0, parts ! 1, parts ! 2,
                 if contains ''Up'' (parts ! 3) then ''running'' else ''stopped'')
         else None)
      else None)"

definition get_docker_containers_first ::
  "proc \<Rightarrow> proc \<Rightarrow> string + (string \<times> string \<times> string \<times> string) list" where
  "get_docker_containers_first version r =
     (case version of
        FileNotFoundError \<Rightarrow> Inr []
      | TimeoutExpired \<Rightarrow> Inr []
      | OtherError e \<Rightarrow> Inr []
      | Completed _ _ _ \<Rightarrow>
         (case r of
            Completed returncode out err \<Rightarrow>
              if returncode \<noteq> 0 then
                (if contains ''Cannot connect to the Docker daemon'' err then Inr []
                 else Inr [])
              else Inr (List.map_filter basic_of_line (split_on (CHR 0x0A) (strip out)))
          | TimeoutExpired \<Rightarrow> Inl ''Docker command timed out''
          | FileNotFoundError \<Rightarrow> Inr []
          | OtherError e \<Rightarrow> Inr []))"

definition get_container_logs :: "proc \<Rightarrow> string + string" where
  "get_container_logs r =
     (case r of
        Completed returncode out err \<Rightarrow>
          if returncode \<noteq> 0
          then Inl (''Failed to get container logs: '' @ ''Docker logs command failed: '' @ err)
          else Inr out
      | TimeoutExpired \<Rightarrow> Inl ''Docker logs command timed out''
      | FileNotFoundError \<Rightarrow> Inl ''Docker command not found''
      | OtherError e \<Rightarrow> Inl (''Failed to get container logs: '' @ e))"

definition execute_container_action :: "string \<Rightarrow> proc \<Rightarrow> string + string" where
  "execute_container_action action r =
     (if action \<notin> set [''start'', ''stop'', ''restart'']
      then Inl (''Failed to '' @ action @ '' container: '' @ ''Invalid container action'')
      else
        (case r of
           Completed returncode out err \<Rightarrow>
             if returncode \<noteq> 0
             then Inl (''Failed to '' @ action @ '' container: '' @ ''Docker '' @ action
                        @ '' command failed: '' @ err)
             else Inr (''Container '' @ action @ ''ed successfully'')
         | TimeoutExpired \<Rightarrow> Inl ''Docker command timed out''
         | FileNotFoundError \<Rightarrow> Inl ''Docker command not found''
         | OtherError e \<Rightarrow> Inl (''Failed to '' @ action @ '' container: '' @ e)))"


section \<open>Background tasks\<close>

definition message_of :: "task_message \<Rightarrow> message" where
  "message_of m =
     (case m of
        Action_result container_id action st text \<Rightarrow>
          Container_action_result container_id action st text
      | Logs container_id logs tail \<Rightarrow> Container_logs container_id logs tail
      | Logs_error container_id e \<Rightarrow> Container_logs_error container_id e)"

text \<open>
  \<open>handle_container_action\<close> from the call of \<open>execute_container_action\<close> on: the call,
  synchronous, then the message tagged \<open>success\<close> or \<open>error\<close>, the second write of the
  coroutine.
\<close>

definition after_in_progress ::
  "string \<Rightarrow> json \<Rightarrow> json \<Rightarrow> string \<Rightarrow> env \<Rightarrow> world \<Rightarrow> task_state \<times> world" where
  "after_in_progress connection_id container_id action a e w =
     (let w2 = log (Exec container_id a) w;
          m = (case execute_container_action a (docker e) of
                 Inr result_msg \<Rightarrow> Action_result container_id action Success [Lit result_msg]
               | Inl err \<Rightarrow> Action_result container_id action Error [Lit err])
      in case send_call (message_of m) connection_id w2 of
           (Some ws, w3) \<Rightarrow> (Second_send ws m, w3)
         | (None, w3) \<Rightarrow> (Finished, w3))"

text \<open>
  \<open>handle_container_action\<close>, one turn: from the point \<open>pc\<close> the coroutine runs until it
  is suspended in the next \<open>send_text\<close> or ends, and the point reached is returned.
  \<open>action.capitalize()\<close> is evaluated inside the \<open>try\<close> before the first message is
  built, and raises \<open>AttributeError\<close> when \<open>action\<close> is not a string. A cancelled task is
  resumed with \<open>CancelledError\<close> at its \<open>await\<close>, which neither \<open>except Exception\<close>
  catches: the coroutine ends there.
\<close>

definition handle_container_action ::
  "string \<Rightarrow> json \<Rightarrow> json \<Rightarrow> task_state \<Rightarrow> env \<Rightarrow> world \<Rightarrow> task_state \<times> world" where
  "handle_container_action connection_id container_id action pc e w =
     (case pc of
        Pending \<Rightarrow>
          (case action of
             JStr a \<Rightarrow>
               (let m = Action_result container_id action In_progress
                          [Capitalized a, Lit '' requested...'']
                in case send_call (message_of m) connection_id w of
                     (Some ws, w1) \<Rightarrow> (First_send ws m, w1)
                   | (None, w1) \<Rightarrow> after_in_progress connection_id container_id action a e w1)
           | _ \<Rightarrow>
               (let m = Action_result container_id action Error
                          [Lit (attribute_error action ''capitalize'')]
                in case send_call (message_of m) connection_id w of
                     (Some ws, w1) \<Rightarrow> (First_send ws m, w1)
                   | (None, w1) \<Rightarrow> (Finished, w1)))
      | First_send ws m \<Rightarrow>
          (let w1 = send_return ws (message_of m) connection_id (wr e) w
           in case action of
                JStr a \<Rightarrow> after_in_progress connection_id container_id action a e w1
              | _ \<Rightarrow> (Finished, w1))
      | Second_send ws m \<Rightarrow>
          (Finished, send_return ws (message_of m) connection_id (wr2 e) w)
      | Finished \<Rightarrow> (Finished, w)
      | Cancelled \<Rightarrow> (Cancelled, w))"

text \<open>\<open>stream_container_logs\<close>, one turn; its only write is its first.\<close>

definition stream_container_logs ::
  "string \<Rightarrow> json \<Rightarrow> json \<Rightarrow> json \<Rightarrow> task_state \<Rightarrow> env \<Rightarrow> world \<Rightarrow> task_state \<times> world" where
  "stream_container_logs connection_id container_id tail follow pc e w =
     (case pc of
        Pending \<Rightarrow>
          (let m = (case get_container_logs (docker e) of
                      Inr logs \<Rightarrow> Logs container_id logs tail
                    | Inl err \<Rightarrow> Logs_error container_id err)
           in case send_call (message_of m) connection_id w of
                (Some ws, w1) \<Rightarrow> (First_send ws m, w1)
              | (None, w1) \<Rightarrow> (Finished, w1))
      | First_send ws m \<Rightarrow> (Finished, send_return ws (message_of m) connection_id (wr e) w)
      | Second_send ws m \<Rightarrow> (Finished, send_return ws (message_of m) connection_id (wr2 e) w)
      | Finished \<Rightarrow> (Finished, w)
      | Cancelled \<Rightarrow> (Cancelled, w))"

text \<open>
  \<open>asyncio.create_task\<close>: the coroutine is scheduled, not run; the handle returned is the
  index of the new task.
\<close>

definition create_task :: "coroutine \<Rightarrow> world \<Rightarrow> nat \<times> world" where
  "create_task c w = (length (tasks w), w\<lparr>tasks := tasks w @ [(c, Pending)]\<rparr>)"

text \<open>
  The event loop gives a task one turn: its coroutine runs from the point it has reached
  to the next suspension or to its end. A task whose own failed write cancelled it
  during the turn (through \<open>disconnect\<close>) stays cancelled.
\<close>

definition turn :: "nat \<Rightarrow> env \<Rightarrow> world \<Rightarrow> world" where
  "turn t e w =
     (if t < length (tasks w) then
        (let c = fst (tasks w ! t);
             pc = snd (tasks w ! t);
             (pc', w') =
               (case c of
                  HandleContainerAction connection_id container_id action \<Rightarrow>
                    handle_container_action connection_id container_id action pc e w
                | StreamContainerLogs connection_id container_id tail follow \<Rightarrow>
                    stream_container_logs connection_id container_id tail follow pc e w)
         in if snd (tasks w' ! t) = Cancelled then w'
            else w'\<lparr>tasks := (tasks w')[t := (c, pc')]\<rparr>)
      else w)"

text \<open>
  A scheduled task runs without interruption: nothing else is scheduled while it is
  suspended, so its turns follow one another (a coroutine has at most two writes, hence
  at most three turns). A task that has started, has ended or was cancelled is left as
  it is.
\<close>

definition run_task :: "nat \<Rightarrow> env \<Rightarrow> world \<Rightarrow> world" where
  "run_task t e w =
     (if t < length (tasks w) \<and> snd (tasks w ! t) = Pending
      then turn t e (turn t e (turn t e w))
      else w)"


section \<open>The endpoint (\<open>websocket_endpoint\<close>)\<close>

text \<open>
  What \<open>receive_text\<close> followed by \<open>json.loads\<close> yields: the peer has gone
  (\<open>WebSocketDisconnect\<close>), \<open>receive_text\<close> raised something else, the text is not
  JSON (\<open>json.loads\<close> raises \<open>JSONDecodeError\<close>), or the decoded value.
\<close>

datatype frame =
    WebSocketDisconnect
  | ReceiveError
  | Undecodable
  | Payload json

datatype exn = AttributeError | TypeError

text \<open>
  The key under which a value is stored in a Python set; lists and dicts are
  unhashable.
\<close>

definition topic_of :: "json \<Rightarrow> topic option" where
  "topic_of v =
     (case v of
        JNull \<Rightarrow> Some NoneTopic
      | JBool b \<Rightarrow> Some (NumTopic (if b then 1 else 0))
      | JInt n \<Rightarrow> Some (NumTopic n)
      | JStr s \<Rightarrow> Some (Topic s)
      | JArr _ \<Rightarrow> None
      | JObj _ \<Rightarrow> None)"

text \<open>
  The calls \<open>manager.subscribe(connection_id, topic)\<close> and \<open>manager.unsubscribe\<close> with a
  decoded value: \<open>set.add\<close> and \<open>set.discard\<close> raise \<open>TypeError\<close> on an unhashable
  value, when they are reached (the key has a subscription set).
\<close>

definition subscribe_value :: "string \<Rightarrow> json \<Rightarrow> world \<Rightarrow> exn + world" where
  "subscribe_value connection_id v w =
     (case topic_of v of
        Some t \<Rightarrow> Inr (subscribe connection_id t w)
      | None \<Rightarrow> if subscriptions w connection_id \<noteq> None then Inl TypeError else Inr w)"

definition unsubscribe_value :: "string \<Rightarrow> json \<Rightarrow> world \<Rightarrow> exn + world" where
  "unsubscribe_value connection_id v w =
     (case topic_of v of
        Some t \<Rightarrow> Inr (unsubscribe connection_id t w)
      | None \<Rightarrow> if subscriptions w connection_id \<noteq> None then Inl TypeError else Inr w)"

text \<open>
  The body of the \<open>while\<close> loop after decoding: \<open>Inl\<close> when an exception leaves the body.
  \<open>message.get\<close> raises \<open>AttributeError\<close> unless the decoded value is a dict.
\<close>

definition handle_message :: "string \<Rightarrow> json \<Rightarrow> env \<Rightarrow> world \<Rightarrow> exn + world" where
  "handle_message connection_id message e w =
     (case message of
        JObj d \<Rightarrow>
          (let message_type = dict_get d ''type'' JNull in
           if message_type = JStr ''subscribe'' then
             (let topic = dict_get d ''topic'' JNull in
              if truthy topic then subscribe_value connection_id topic w else Inr w)
           else if message_type = JStr ''unsubscribe'' then
             (let topic = dict_get d ''topic'' JNull in
              if truthy topic then unsubscribe_value connection_id topic w else Inr w)
           else if message_type = JStr ''get_system_info'' then
             (case get_system_info (os_query e) of
                Inr system_info \<Rightarrow>
                  Inr (send_personal_message (System_info system_info) connection_id (wr e) w)
              | Inl err \<Rightarrow>
                  Inr (send_personal_message
                         (Error_msg (''Failed to fetch system info: '' @ err))
                         connection_id (wr e) w))
           else if message_type = JStr ''get_metrics'' then
             (case get_system_metrics (os_query e) of
                Inr metrics \<Rightarrow>
                  Inr (send_personal_message (Metrics metrics) connection_id (wr e) w)
              | Inl err \<Rightarrow>
                  Inr (send_personal_message
                         (Error_msg (''Failed to fetch metrics: '' @ err))
                         connection_id (wr e) w))
           else if message_type = JStr ''get_processes'' then
             Inr (send_personal_message (Processes_data (get_processes (os_query e)))
                    connection_id (wr e) w)
           else if message_type = JStr ''kill_process'' then
             (let pid = dict_get d ''pid'' JNull in
              case kill_process e of
                Inr success \<Rightarrow>
                  Inr (send_personal_message
                         (Process_kill_result pid success
                            [Lit ''Process '', Str pid, Lit '' '',
                             Lit (if success then ''killed'' else ''failed to kill'')])
                         connection_id (wr e) w)
              | Inl err \<Rightarrow>
                  Inr (send_personal_message
                         (Error_msg (''Failed to kill process: '' @ err))
                         connection_id (wr e) w))
           else if message_type = JStr ''get_containers'' then
             (case get_docker_containers (docker e) of
                Inr containers \<Rightarrow>
                  Inr (send_personal_message (Containers_data containers) connection_id (wr e) w)
              | Inl err \<Rightarrow>
                  Inr (send_personal_message
                         (Error_msg (''Failed to fetch containers: '' @ err))
                         connection_id (wr e) w))
           else if message_type = JStr ''container_action'' then
             (let container_id = dict_get d ''container_id'' JNull;
                  action = dict_get d ''action'' JNull
              in if truthy container_id \<and> truthy action then
                   (let (task, w1) =
                          create_task (HandleContainerAction connection_id container_id action) w
                    in Inr (w1\<lparr>background_tasks := (background_tasks w1)(connection_id \<mapsto> task)\<rparr>))
                 else Inr w)
           else if message_type = JStr ''get_container_logs'' then
             (let container_id = dict_get d ''container_id'' JNull;
                  tail = dict_get d ''tail'' (JInt 100);
                  follow = dict_get d ''follow'' (JBool False)
              in if truthy container_id then
                   (let (task, w1) =
                          create_task
                            (StreamContainerLogs connection_id container_id tail follow) w
                    in Inr (w1\<lparr>background_tasks := (background_tasks w1)(connection_id \<mapsto> task)\<rparr>))
                 else Inr w)
           else if message_type = JStr ''get_network_stats'' then
             (case os_query e of
                Inr stats \<Rightarrow>
                  Inr (send_personal_message (Network_stats stats) connection_id (wr e) w)
              | Inl err \<Rightarrow>
                  Inr (send_personal_message
                         (Error_msg (''Failed to fetch network stats: '' @ err))
                         connection_id (wr e) w))
           else Inr w)
      | _ \<Rightarrow> Inl AttributeError)"

text \<open>
  One turn of the loop. The loop has no handler of its own: whatever is raised inside
  it, by \<open>receive_text\<close>, by \<open>json.loads\<close> or by the body, reaches the two \<open>except\<close>
  clauses around the loop, which both call \<open>manager.disconnect\<close> and end the endpoint.
\<close>

datatype loop = Running | Stopped

definition iteration :: "string \<Rightarrow> frame \<Rightarrow> env \<Rightarrow> world \<Rightarrow> loop \<times> world" where
  "iteration connection_id f e w =
     (case f of
        WebSocketDisconnect \<Rightarrow> (Stopped, disconnect connection_id w)
      | ReceiveError \<Rightarrow> (Stopped, disconnect connection_id w)
      | Undecodable \<Rightarrow> (Stopped, disconnect connection_id w)
      | Payload message \<Rightarrow>
          (case handle_message connection_id message e w of
             Inl _ \<Rightarrow> (Stopped, disconnect connection_id w)
           | Inr w' \<Rightarrow> (Running, w')))"

text \<open>
  A schedule of the event loop for one connection: the endpoint receives a frame and
  handles it (\<open>Recv\<close>), a scheduled task runs without interruption (\<open>Run\<close>), or a task
  gets one turn (\<open>Turn\<close>). Once the endpoint has ended, frames are no longer read; tasks
  still run.
\<close>

datatype step = Recv frame env | Run nat env | Turn nat env

fun run :: "string \<Rightarrow> step list \<Rightarrow> loop \<times> world \<Rightarrow> loop \<times> world" where
  "run connection_id [] lw = lw"
| "run connection_id (Recv f e # ss) (Running, w) =
     run connection_id ss (iteration connection_id f e w)"
| "run connection_id (Recv f e # ss) (Stopped, w) = run connection_id ss (Stopped, w)"
| "run connection_id (Run t e # ss) (l, w) = run connection_id ss (l, run_task t e w)"
| "run connection_id (Turn t e # ss) (l, w) = run connection_id ss (l, turn t e w)"

definition websocket_endpoint ::
  "websocket \<Rightarrow> string \<Rightarrow> bool \<Rightarrow> step list \<Rightarrow> world \<Rightarrow> loop \<times> world" where
  "websocket_endpoint ws connection_id accepted ss w =
     (case connect ws connection_id accepted w of
        None \<Rightarrow> (Stopped, w)
      | Some w1 \<Rightarrow> run connection_id ss (Running, w1))"

text \<open>
  A terminal message of a background task: the result of a container action or of a
  log retrieval. A message counts as delivered when its transport write succeeded.
\<close>

definition terminal :: "message \<Rightarrow> bool" where
  "terminal m =
     (case m of
        Container_action_result _ _ st _ \<Rightarrow> st = Success \<or> st = Error
      | Container_logs _ _ _ \<Rightarrow> True
      | Container_logs_error _ _ \<Rightarrow> True
      | _ \<Rightarrow> False)"

definition delivered_terminal :: "event \<Rightarrow> bool" where
  "delivered_terminal ev = (case ev of Write _ m ok \<Rightarrow> ok \<and> terminal m | _ \<Rightarrow> False)"

definition is_cancel :: "event \<Rightarrow> bool" where
  "is_cancel ev = (case ev of Cancel _ \<Rightarrow> True | _ \<Rightarrow> False)"

definition is_write :: "event \<Rightarrow> bool" where
  "is_write ev = (case ev of Write _ _ _ \<Rightarrow> True | _ \<Rightarrow> False)"

text \<open>The connection a task belongs to.\<close>

definition owner :: "coroutine \<Rightarrow> string" where
  "owner c = (case c of HandleContainerAction k _ _ \<Rightarrow> k | StreamContainerLogs k _ _ _ \<Rightarrow> k)"

text \<open>
  The registry invariant: a key has a channel exactly when it has a subscription set.
\<close>

definition consistent :: "world \<Rightarrow> bool" where
  "consistent w = (dom (active_connections w) = dom (subscriptions w))"

text \<open>
  A \<open>process_kill_result\<close> message reports success with the text of the \<open>killed\<close>
  branch; any other message passes. \<open>kill_replies_ok\<close> says so of every message pushed
  or written so far.
\<close>

definition kill_reply_ok :: "message \<Rightarrow> bool" where
  "kill_reply_ok m =
     (case m of
        Process_kill_result pid success text \<Rightarrow>
          success \<and> Lit ''killed'' \<in> set text \<and> Lit ''failed to kill'' \<notin> set text
      | _ \<Rightarrow> True)"

definition event_ok :: "event \<Rightarrow> bool" where
  "event_ok ev =
     (case ev of
        Push _ m \<Rightarrow> kill_reply_ok m
      | Write _ m _ \<Rightarrow> kill_reply_ok m
      | _ \<Rightarrow> True)"

definition kill_replies_ok :: "world \<Rightarrow> bool" where
  "kill_replies_ok w = list_all event_ok (trace w)"


section \<open>Example sessions and requests\<close>

text \<open>An environment in which every write and every collaborator call succeeds.\<close>

definition env_ok :: env where
  "env_ok = \<lparr>wr = True, wr2 = True, ps_Process = None, ps_terminate = None, ps_wait = None,
             ps_kill = None, docker = Completed 0 [] [], os_query = Inr (JObj [])\<rparr>"

definition container_action_request :: "string \<Rightarrow> json" where
  "container_action_request a =
     JObj [(''type'', JStr ''container_action''), (''container_id'', JStr ''abc''),
           (''action'', JStr a)]"

definition get_container_logs_request :: json where
  "get_container_logs_request =
     JObj [(''type'', JStr ''get_container_logs''), (''container_id'', JStr ''abc'')]"

definition get_system_info_request :: json where
  "get_system_info_request = JObj [(''type'', JStr ''get_system_info'')]"

definition kill_process_request :: json where
  "kill_process_request = JObj [(''type'', JStr ''kill_process''), (''pid'', JInt 999999)]"

text \<open>
  Environments in which \<open>psutil.Process(pid)\<close> raises \<open>NoSuchProcess\<close>, in which
  \<open>proc.terminate()\<close> raises \<open>AccessDenied\<close>, and in which \<open>proc.wait\<close> times out and
  \<open>proc.kill()\<close> returns.
\<close>

definition env_no_process :: env where
  "env_no_process = env_ok\<lparr>ps_Process := Some (NoSuchProcess ''process no longer exists'')\<rparr>"

definition env_denied :: env where
  "env_denied = env_ok\<lparr>ps_terminate := Some (AccessDenied ''access denied'')\<rparr>"

definition env_slow :: env where
  "env_slow = env_ok\<lparr>ps_wait := Some (Ps_TimeoutExpired ''timeout after 5 seconds'')\<rparr>"

text \<open>
  The registry after \<open>c1\<close> has connected on socket 0, and the same session with a
  subscription and a scheduled container action recorded as its background task.
\<close>

definition session_c1 :: world where
  "session_c1 =
     init\<lparr>active_connections := [''c1'' \<mapsto> WebSocket 0], subscriptions := [''c1'' \<mapsto> {}]\<rparr>"

definition busy_c1 :: world where
  "busy_c1 =
     session_c1\<lparr>subscriptions := [''c1'' \<mapsto> {Topic ''metrics''}],
                background_tasks := [''c1'' \<mapsto> 0],
                tasks := [(HandleContainerAction ''c1'' (JStr ''abc'') (JStr ''restart''),
                           Pending)]\<rparr>"


section \<open>Auxiliary facts\<close>

lemmas model_defs = websocket_endpoint_def connect_def init_def iteration_def handle_message_def
  dict_get_def truthy_def create_task_def run_task_def turn_def handle_container_action_def
  stream_container_logs_def after_in_progress_def send_call_def send_return_def message_of_def
  send_personal_message_def log_def disconnect_def cancel_def
  execute_container_action_def get_container_logs_def get_system_info_def kill_process_def
  delivered_terminal_def terminal_def is_cancel_def is_write_def Let_def

lemmas example_defs = env_ok_def container_action_request_def get_container_logs_request_def
  get_system_info_request_def kill_process_request_def session_c1_def busy_c1_def
  env_no_process_def env_denied_def env_slow_def

lemma log_fields [simp]:
  "active_connections (log ev w) = active_connections w"
  "subscriptions (log ev w) = subscriptions w"
  "background_tasks (log ev w) = background_tasks w"
  "tasks (log ev w) = tasks w"
  "trace (log ev w) = trace w @ [ev]"
  by (simp_all add: log_def)

lemma cancel_fields [simp]:
  "active_connections (cancel t w) = active_connections w"
  "subscriptions (cancel t w) = subscriptions w"
  "background_tasks (cancel t w) = background_tasks w"
  "trace (cancel t w) = trace w @ [Cancel t]"
  by (simp_all add: cancel_def Let_def)

lemma cancel_tasks:
  "tasks (cancel t w) =
     (if t < length (tasks w) \<and> snd (tasks w ! t) \<notin> {Finished, Cancelled}
      then (tasks w)[t := (fst (tasks w ! t), Cancelled)] else tasks w)"
  by (simp add: cancel_def Let_def)

lemma disconnect_fields:
  "active_connections (disconnect k w) = (active_connections w)(k := None)"
  "subscriptions (disconnect k w) = (subscriptions w)(k := None)"
  "background_tasks (disconnect k w) = (background_tasks w)(k := None)"
  "trace (disconnect k w) =
     trace w @ (case background_tasks w k of None \<Rightarrow> [] | Some t \<Rightarrow> [Cancel t])"
  "tasks (disconnect k w) =
     (case background_tasks w k of None \<Rightarrow> tasks w | Some t \<Rightarrow> tasks (cancel t w))"
  by (auto simp: disconnect_def Let_def cancel_tasks split: option.splits)

lemma length_tasks_disconnect [simp]: "length (tasks (disconnect k w)) = length (tasks w)"
  by (simp add: disconnect_fields cancel_tasks split: option.splits)

lemma send_unregistered:
  "active_connections w k = None \<Longrightarrow> send_personal_message m k sent w = log (Push k m) w"
  by (simp add: send_personal_message_def Let_def)

lemma send_failed:
  "active_connections w k = Some ws \<Longrightarrow>
   send_personal_message m k False w =
     disconnect k (log (Write ws m False) (log (Push k m) w))"
  by (simp add: send_personal_message_def Let_def)

lemma run_stopped: "run k (map (case_prod Recv) later) (Stopped, w) = (Stopped, w)"
  by (induction later) auto

text \<open>The turns of a task.\<close>

lemmas task_defs = turn_def handle_container_action_def stream_container_logs_def
  after_in_progress_def send_call_def send_return_def message_of_def Let_def










text \<open>Every reply to \<open>kill_process\<close> reports success.\<close>

lemma kill_process_true: "kill_process e = Inr b \<Longrightarrow> b"
  by (auto simp: kill_process_def kill_process_except_def split: option.splits psutil_exc.splits)

lemma kill_process_except_raises: "\<exists>msg. kill_process_except x = Inl msg"
  by (cases x) (simp_all add: kill_process_except_def)

lemma kill_process_returns: "kill_process e = Inr True \<longleftrightarrow>
      ps_Process e = None \<and> ps_terminate e = None \<and>
      (ps_wait e = None \<or> (\<exists>s. ps_wait e = Some (Ps_TimeoutExpired s)) \<and> ps_kill e = None)"
proof -
  have ex: "kill_process_except x \<noteq> Inr True" for x
    using kill_process_except_raises[of x] by auto
  show ?thesis
    by (cases "ps_Process e"; cases "ps_terminate e"; cases "ps_wait e"; cases "ps_kill e")
       (auto simp: kill_process_def ex split: psutil_exc.splits)
qed

lemma kill_process_raises: "kill_process e = Inl msg \<Longrightarrow>
      (\<exists>x. kill_process_except x = Inl msg \<and>
           (ps_Process e = Some x \<or> ps_terminate e = Some x \<or> ps_wait e = Some x \<or>
            ps_kill e = Some x))"
  by (cases "ps_Process e"; cases "ps_terminate e"; cases "ps_wait e"; cases "ps_kill e")
     (auto simp: kill_process_def split: psutil_exc.splits)

lemma kill_process_reply:
  assumes "dict_get d ''type'' JNull = JStr ''kill_process''"
  shows "handle_message k (JObj d) e w =
        Inr (send_personal_message
               (case kill_process e of
                  Inr success \<Rightarrow>
                    Process_kill_result (dict_get d ''pid'' JNull) True
                      [Lit ''Process '', Str (dict_get d ''pid'' JNull), Lit '' '', Lit ''killed'']
                | Inl err \<Rightarrow> Error_msg (''Failed to kill process: '' @ err))
               k (wr e) w)"
proof (cases "kill_process e")
  case (Inl err)
  with assms show ?thesis by (simp add: handle_message_def Let_def)
next
  case (Inr b)
  then have b by (rule kill_process_true)
  with Inr assms show ?thesis by (simp add: handle_message_def Let_def)
qed

lemma kill_reply_ok_message_of [simp]: "kill_reply_ok (message_of m)"
  by (cases m) (simp_all add: message_of_def kill_reply_ok_def)

lemma kro_log [simp]: "kill_replies_ok (log ev w) = (kill_replies_ok w \<and> event_ok ev)"
  by (simp add: kill_replies_ok_def)

lemma kro_disconnect [simp]: "kill_replies_ok (disconnect k w) = kill_replies_ok w"
  by (simp add: kill_replies_ok_def disconnect_fields event_ok_def split: option.splits)

lemma kro_send:
  "kill_replies_ok w \<Longrightarrow> kill_reply_ok m \<Longrightarrow> kill_replies_ok (send_personal_message m k sent w)"
  by (simp add: send_personal_message_def Let_def event_ok_def split: option.splits)

lemma kro_send_call:
  "kill_replies_ok w \<Longrightarrow> kill_reply_ok m \<Longrightarrow> kill_replies_ok (snd (send_call m k w))"
  by (simp add: send_call_def Let_def event_ok_def)

lemma kro_send_return:
  "kill_replies_ok w \<Longrightarrow> kill_reply_ok m \<Longrightarrow> kill_replies_ok (send_return ws m k sent w)"
  by (simp add: send_return_def event_ok_def)

lemma kro_update [simp]:
  "kill_replies_ok (w\<lparr>tasks := ts\<rparr>) = kill_replies_ok w"
  "kill_replies_ok (w\<lparr>background_tasks := b\<rparr>) = kill_replies_ok w"
  "kill_replies_ok (w\<lparr>subscriptions := sb\<rparr>) = kill_replies_ok w"
  by (simp_all add: kill_replies_ok_def)

lemma kro_after_in_progress:
  assumes "kill_replies_ok w"
  shows "kill_replies_ok (snd (after_in_progress k c action a e w))"
proof -
  have "kill_replies_ok (log (Exec c a) w)" using assms by (simp add: event_ok_def)
  from kro_send_call[OF this] show ?thesis
    by (auto simp: after_in_progress_def Let_def split: prod.splits option.splits)
       (metis kill_reply_ok_message_of snd_conv)+
qed

lemma kro_handle_container_action:
  assumes "kill_replies_ok w"
  shows "kill_replies_ok (snd (handle_container_action k c a pc e w))"
proof (cases pc)
  case Pending
  show ?thesis
  proof (cases "\<exists>s. a = JStr s")
    case True
    then obtain s where s: "a = JStr s" by blast
    let ?m = "Action_result c a In_progress [Capitalized s, Lit '' requested...'']"
    have c: "kill_replies_ok (snd (send_call (message_of ?m) k w))"
      using assms by (rule kro_send_call) simp
    show ?thesis
      using c kro_after_in_progress[of "snd (send_call (message_of ?m) k w)" k c a s e]
      by (auto simp: handle_container_action_def Pending s Let_def
          split: prod.splits option.splits)
  next
    case False
    let ?m = "Action_result c a Error [Lit (attribute_error a ''capitalize'')]"
    have c: "kill_replies_ok (snd (send_call (message_of ?m) k w))"
      using assms by (rule kro_send_call) simp
    with False show ?thesis
      by (cases a)
         (auto simp: handle_container_action_def Pending Let_def
            split: prod.splits option.splits)
  qed
next
  case (First_send ws m)
  have r: "kill_replies_ok (send_return ws (message_of m) k (wr e) w)"
    using assms by (rule kro_send_return) simp
  show ?thesis
    using r kro_after_in_progress[OF r]
    by (cases a) (simp_all add: handle_container_action_def First_send Let_def)
next
  case (Second_send ws m)
  have "kill_replies_ok (send_return ws (message_of m) k (wr2 e) w)"
    using assms by (rule kro_send_return) simp
  then show ?thesis by (simp add: handle_container_action_def Second_send)
qed (use assms in \<open>simp_all add: handle_container_action_def\<close>)

lemma kro_stream_container_logs:
  assumes "kill_replies_ok w"
  shows "kill_replies_ok (snd (stream_container_logs k c tail follow pc e w))"
proof (cases pc)
  case Pending
  have "kill_replies_ok (snd (send_call (message_of m) k w))" for m
    using assms by (rule kro_send_call) simp
  then show ?thesis
    by (auto simp: stream_container_logs_def Pending Let_def
        split: prod.splits option.splits sum.splits)
       (metis snd_conv)+
next
  case (First_send ws m)
  have "kill_replies_ok (send_return ws (message_of m) k (wr e) w)"
    using assms by (rule kro_send_return) simp
  then show ?thesis by (simp add: stream_container_logs_def First_send)
next
  case (Second_send ws m)
  have "kill_replies_ok (send_return ws (message_of m) k (wr2 e) w)"
    using assms by (rule kro_send_return) simp
  then show ?thesis by (simp add: stream_container_logs_def Second_send)
qed (use assms in \<open>simp_all add: stream_container_logs_def\<close>)

lemma kro_turn: "kill_replies_ok w \<Longrightarrow> kill_replies_ok (turn t e w)"
  using kro_handle_container_action kro_stream_container_logs
  by (auto simp: turn_def Let_def split: coroutine.splits prod.splits) (metis snd_conv)+

lemma kro_run_task: "kill_replies_ok w \<Longrightarrow> kill_replies_ok (run_task t e w)"
  by (simp add: run_task_def kro_turn)

lemma kro_handle_message:
  assumes "kill_replies_ok w" "handle_message k m e w = Inr w'"
  shows "kill_replies_ok w'"
proof (cases m)
  case (JObj d)
  with assms show ?thesis
    by (auto simp: handle_message_def Let_def subscribe_value_def unsubscribe_value_def
        subscribe_def unsubscribe_def create_task_def kill_reply_ok_def
        intro!: kro_send dest: kill_process_true
        split: if_splits sum.splits option.splits)
qed (use assms in \<open>simp_all add: handle_message_def\<close>)

lemma kro_iteration:
  "kill_replies_ok w \<Longrightarrow> kill_replies_ok (snd (iteration k f e w))"
  by (auto simp: iteration_def kro_handle_message split: frame.splits sum.splits)

lemma kro_run:
  "kill_replies_ok (snd lw) \<Longrightarrow> kill_replies_ok (snd (run k ss lw))"
proof (induction k ss lw rule: run.induct)
  case (2 k f e ss w)
  then show ?case using kro_iteration[of w k f e] by simp
qed (simp_all add: kro_run_task kro_turn)


section \<open>Claims\<close>

subsection \<open>C1: a new background request and the task already recorded\<close>

text \<open>
  C1, as stated, fails. Session \<open>c1\<close> sends two \<open>container_action\<close> requests before the
  first task has run. After the second request the first task is still scheduled, no
  \<open>cancel\<close> is ever called, and when both tasks have run two terminal messages have been
  delivered on the session's socket, not one.
\<close>

theorem second_request_counterexample:
  "snd (tasks (snd (websocket_endpoint (WebSocket 0) ''c1'' True
      [Recv (Payload (container_action_request ''restart'')) env_ok,
       Recv (Payload (container_action_request ''stop'')) env_ok] init)) ! 0) = Pending \<and>
   length (filter delivered_terminal (trace (snd (websocket_endpoint (WebSocket 0) ''c1'' True
      [Recv (Payload (container_action_request ''restart'')) env_ok,
       Recv (Payload (container_action_request ''stop'')) env_ok,
       Run 0 env_ok, Run 1 env_ok] init)))) = 2 \<and>
   filter is_cancel (trace (snd (websocket_endpoint (WebSocket 0) ''c1'' True
      [Recv (Payload (container_action_request ''restart'')) env_ok,
       Recv (Payload (container_action_request ''stop'')) env_ok,
       Run 0 env_ok, Run 1 env_ok] init))) = []"
  by (simp add: model_defs example_defs)

text \<open>
  C1, amended: a \<open>container_action\<close> request with a truthy \<open>container_id\<close> and \<open>action\<close>,
  and a \<open>get_container_logs\<close> request with a truthy \<open>container_id\<close>, schedule a new task
  and record it under the session's key in place of the handle recorded before. Nothing
  else changes: no task is cancelled, and the tasks scheduled earlier keep their state.
  Every scheduled task that runs while its session is registered and its writes succeed
  delivers exactly one terminal message, so two requests give two terminal messages.
\<close>

theorem background_request_replaces_without_cancel:
  "(dict_get d ''type'' JNull = JStr ''container_action'' \<and>
    truthy (dict_get d ''container_id'' JNull) \<and> truthy (dict_get d ''action'' JNull) \<longrightarrow>
      handle_message k (JObj d) e w =
        Inr (w\<lparr>tasks := tasks w @ [(HandleContainerAction k (dict_get d ''container_id'' JNull)
                                      (dict_get d ''action'' JNull), Pending)],
               background_tasks := (background_tasks w)(k \<mapsto> length (tasks w))\<rparr>)) \<and>
   (dict_get d ''type'' JNull = JStr ''get_container_logs'' \<and>
    truthy (dict_get d ''container_id'' JNull) \<longrightarrow>
      handle_message k (JObj d) e w =
        Inr (w\<lparr>tasks := tasks w @ [(StreamContainerLogs k (dict_get d ''container_id'' JNull)
                                      (dict_get d ''tail'' (JInt 100))
                                      (dict_get d ''follow'' (JBool False)), Pending)],
               background_tasks := (background_tasks w)(k \<mapsto> length (tasks w))\<rparr>)) \<and>
   (t < length (tasks w) \<and> tasks w ! t = (c, Pending) \<and>
    active_connections w (owner c) = Some ws \<and> wr e \<and> wr2 e \<longrightarrow>
      length (filter delivered_terminal (trace (run_task t e w))) =
        length (filter delivered_terminal (trace w)) + 1)"
proof (intro conjI impI)
  assume a: "t < length (tasks w) \<and> tasks w ! t = (c, Pending) \<and>
    active_connections w (owner c) = Some ws \<and> wr e \<and> wr2 e"
  show "length (filter delivered_terminal (trace (run_task t e w))) =
        length (filter delivered_terminal (trace w)) + 1"
  proof (cases c)
    case (HandleContainerAction k' cid action)
    with a have reg: "active_connections w k' = Some ws" by (simp add: owner_def)
    show ?thesis
    proof (cases "\<exists>s. action = JStr s")
      case True
      then obtain s where s: "action = JStr s" by blast
      from a reg show ?thesis
        by (cases "execute_container_action s (docker e)")
           (simp_all add: run_task_def task_defs HandleContainerAction s
             terminal_def delivered_terminal_def)
    next
      case False
      with a reg show ?thesis
        by (cases action)
           (simp_all add: run_task_def task_defs HandleContainerAction
             terminal_def delivered_terminal_def)
    qed
  next
    case (StreamContainerLogs k' cid tail follow)
    with a have reg: "active_connections w k' = Some ws" by (simp add: owner_def)
    from a reg show ?thesis
      by (cases "get_container_logs (docker e)")
         (simp_all add: run_task_def task_defs StreamContainerLogs
           terminal_def delivered_terminal_def)
  qed
qed (simp_all add: handle_message_def Let_def create_task_def)

theorem background_request_replaces_without_cancel_witness:
  "handle_message ''c1'' (container_action_request ''stop'') env_ok busy_c1 =
     Inr (busy_c1\<lparr>tasks := [(HandleContainerAction ''c1'' (JStr ''abc'') (JStr ''restart''), Pending),
                            (HandleContainerAction ''c1'' (JStr ''abc'') (JStr ''stop''), Pending)],
                  background_tasks := [''c1'' \<mapsto> 1]\<rparr>) \<and>
   handle_message ''c1'' get_container_logs_request env_ok busy_c1 =
     Inr (busy_c1\<lparr>tasks := [(HandleContainerAction ''c1'' (JStr ''abc'') (JStr ''restart''), Pending),
                            (StreamContainerLogs ''c1'' (JStr ''abc'') (JInt 100) (JBool False),
                             Pending)],
                  background_tasks := [''c1'' \<mapsto> 1]\<rparr>) \<and>
   length (filter delivered_terminal (trace (run_task 0 env_ok busy_c1))) = 1"
  using background_request_replaces_without_cancel
          [of "[(''type'', JStr ''container_action''), (''container_id'', JStr ''abc''),
                (''action'', JStr ''stop'')]"
              "''c1''" env_ok busy_c1 0
              "HandleContainerAction ''c1'' (JStr ''abc'') (JStr ''restart'')" "WebSocket 0"]
        background_request_replaces_without_cancel
          [of "[(''type'', JStr ''get_container_logs''), (''container_id'', JStr ''abc'')]"
              "''c1''" env_ok busy_c1 0
              "HandleContainerAction ''c1'' (JStr ''abc'') (JStr ''restart'')" "WebSocket 0"]
  by (simp add: example_defs dict_get_def truthy_def owner_def init_def)


subsection \<open>C2: an inbound message that does not decode\<close>

text \<open>
  C2, as stated, fails. Session \<open>c1\<close> sends text that is not JSON and then a well-formed
  \<open>get_system_info\<close> request. The endpoint has ended after the first frame, nothing at
  all has been pushed or written (no \<open>error\<close> reply, no \<open>system_info\<close> reply), and \<open>c1\<close>
  is no longer registered.
\<close>

theorem undecodable_counterexample:
  "fst (websocket_endpoint (WebSocket 0) ''c1'' True
      [Recv Undecodable env_ok, Recv (Payload get_system_info_request) env_ok] init) = Stopped \<and>
   trace (snd (websocket_endpoint (WebSocket 0) ''c1'' True
      [Recv Undecodable env_ok, Recv (Payload get_system_info_request) env_ok] init)) = [] \<and>
   active_connections (snd (websocket_endpoint (WebSocket 0) ''c1'' True
      [Recv Undecodable env_ok, Recv (Payload get_system_info_request) env_ok] init)) ''c1'' = None"
  by (simp add: model_defs example_defs)

text \<open>
  C2, amended: an inbound message whose payload fails to decode produces no reply. The
  exception leaves the receive loop, the endpoint calls \<open>disconnect\<close> for the session
  (its channel, its subscription set and its recorded background task are removed, the
  task cancelled, and nothing else happens) and ends; frames that follow on that
  connection are not read.
\<close>

theorem undecodable_ends_loop:
  "iteration k Undecodable e w = (Stopped, disconnect k w) \<and>
   run k (Recv Undecodable e # map (case_prod Recv) later) (Running, w) =
     (Stopped, disconnect k w) \<and>
   trace (disconnect k w) =
     trace w @ (case background_tasks w k of None \<Rightarrow> [] | Some t \<Rightarrow> [Cancel t]) \<and>
   active_connections (disconnect k w) k = None \<and>
   subscriptions (disconnect k w) k = None \<and>
   background_tasks (disconnect k w) k = None"
  by (simp add: iteration_def run_stopped disconnect_fields)

theorem undecodable_ends_loop_witness:
  "iteration ''c1'' Undecodable env_ok busy_c1 = (Stopped, disconnect ''c1'' busy_c1) \<and>
   run ''c1'' [Recv Undecodable env_ok, Recv (Payload get_system_info_request) env_ok]
     (Running, busy_c1) = (Stopped, disconnect ''c1'' busy_c1) \<and>
   trace (disconnect ''c1'' busy_c1) = [Cancel 0] \<and>
   active_connections (disconnect ''c1'' busy_c1) ''c1'' = None"
  using undecodable_ends_loop
          [of "''c1''" env_ok busy_c1 "[(Payload get_system_info_request, env_ok)]"]
  by (simp add: example_defs init_def)


subsection \<open>C3: sending to a key that is not registered\<close>

text \<open>
  C3: \<open>send_personal_message\<close> to a key without a channel, whether it was never
  registered or has been unregistered by \<open>disconnect\<close>, changes neither the three
  dictionaries nor the tasks; the only effect recorded is the call itself, so nothing is
  written to any socket. The function has no error outcome.
\<close>

theorem send_to_unregistered_is_noop:
  "(active_connections w k = None \<longrightarrow>
      send_personal_message m k sent w = w\<lparr>trace := trace w @ [Push k m]\<rparr>) \<and>
   send_personal_message m k sent (disconnect k w) =
      (disconnect k w)\<lparr>trace := trace (disconnect k w) @ [Push k m]\<rparr> \<and>
   filter is_write (trace (send_personal_message m k sent (disconnect k w))) =
      filter is_write (trace (disconnect k w))"
  by (simp add: send_unregistered disconnect_fields log_def is_write_def)

theorem send_to_unregistered_is_noop_witness:
  "active_connections init ''c1'' = None \<and>
   send_personal_message (Error_msg ''x'') ''c1'' True init =
     init\<lparr>trace := [Push ''c1'' (Error_msg ''x'')]\<rparr> \<and>
   trace (send_personal_message (Error_msg ''x'') ''c1'' True (disconnect ''c1'' session_c1)) =
     [Push ''c1'' (Error_msg ''x'')]"
  using send_to_unregistered_is_noop[of init "''c1''" "Error_msg ''x''" True]
        send_to_unregistered_is_noop[of session_c1 "''c1''" "Error_msg ''x''" True]
  by (simp add: example_defs init_def disconnect_fields)


subsection \<open>C4: a failed transport write\<close>

text \<open>
  C4: when the write of \<open>send_personal_message\<close> to a registered key fails, the result
  is that of \<open>disconnect\<close> for that key applied after the failed write: the key has no
  channel, no subscription set and no recorded background task any more, and the task
  that was recorded has been cancelled. The function returns; it has no error outcome.
\<close>

theorem send_failure_unregisters:
  assumes "active_connections w k = Some ws"
  shows "send_personal_message m k False w =
           disconnect k (w\<lparr>trace := trace w @ [Push k m, Write ws m False]\<rparr>) \<and>
         active_connections (send_personal_message m k False w) k = None \<and>
         subscriptions (send_personal_message m k False w) k = None \<and>
         background_tasks (send_personal_message m k False w) k = None \<and>
         (\<forall>t. background_tasks w k = Some t \<longrightarrow>
            Cancel t \<in> set (trace (send_personal_message m k False w)) \<and>
            (t < length (tasks w) \<longrightarrow>
               snd (tasks (send_personal_message m k False w) ! t) \<noteq> Pending))"
  using assms
  by (auto simp: send_failed disconnect_fields cancel_tasks log_def)

theorem send_failure_unregisters_witness:
  "active_connections busy_c1 ''c1'' = Some (WebSocket 0) \<and>
   active_connections (send_personal_message (Error_msg ''x'') ''c1'' False busy_c1) ''c1'' = None \<and>
   subscriptions (send_personal_message (Error_msg ''x'') ''c1'' False busy_c1) ''c1'' = None \<and>
   background_tasks (send_personal_message (Error_msg ''x'') ''c1'' False busy_c1) ''c1'' = None \<and>
   Cancel 0 \<in> set (trace (send_personal_message (Error_msg ''x'') ''c1'' False busy_c1)) \<and>
   snd (tasks (send_personal_message (Error_msg ''x'') ''c1'' False busy_c1) ! 0) \<noteq> Pending"
  using send_failure_unregisters[of busy_c1 "''c1''" "WebSocket 0" "Error_msg ''x''"]
  by (simp add: example_defs init_def disconnect_def cancel_def log_def Let_def)


subsection \<open>C5: the messages of a container action\<close>





subsection \<open>C6: subscribing and unsubscribing\<close>

text \<open>
  C6: subscribing a session twice to a topic gives the same registry as subscribing
  once, with the topic in the session's set exactly once (a set of size one when the
  session had no subscription); unsubscribing from a topic that is not in the set
  changes nothing; on a key without a subscription set both operations change nothing.
\<close>

theorem subscribe_idempotent:
  "subscribe k t (subscribe k t w) = subscribe k t w \<and>
   (\<forall>S. subscriptions w k = Some S \<longrightarrow>
        subscriptions (subscribe k t (subscribe k t w)) k = Some (insert t S) \<and>
        card {x \<in> insert t S. x = t} = 1) \<and>
   (subscriptions w k = Some {} \<longrightarrow>
        (\<exists>S'. subscriptions (subscribe k t (subscribe k t w)) k = Some S' \<and> card S' = 1)) \<and>
   (\<forall>S. subscriptions w k = Some S \<and> t \<notin> S \<longrightarrow> unsubscribe k t w = w) \<and>
   (subscriptions w k = None \<longrightarrow> subscribe k t w = w \<and> unsubscribe k t w = w)"
proof -
  have one: "\<And>S. card {x. x = t \<and> (x = t \<or> x \<in> S)} = Suc 0"
  proof -
    fix S :: "topic set"
    have "{x. x = t \<and> (x = t \<or> x \<in> S)} = {t}" by auto
    then show "card {x. x = t \<and> (x = t \<or> x \<in> S)} = Suc 0" by simp
  qed
  show ?thesis
    by (auto simp: subscribe_def unsubscribe_def map_upd_triv one split: option.splits)
qed

theorem subscribe_idempotent_witness:
  "subscriptions session_c1 ''c1'' = Some {} \<and>
   subscriptions (subscribe ''c1'' (Topic ''metrics'')
                   (subscribe ''c1'' (Topic ''metrics'') session_c1)) ''c1''
     = Some {Topic ''metrics''} \<and>
   card {Topic ''metrics''} = 1 \<and>
   subscriptions busy_c1 ''c1'' = Some {Topic ''metrics''} \<and>
   unsubscribe ''c1'' (Topic ''cpu'') busy_c1 = busy_c1 \<and>
   subscriptions session_c1 ''c2'' = None \<and>
   subscribe ''c2'' (Topic ''metrics'') session_c1 = session_c1 \<and>
   unsubscribe ''c2'' (Topic ''metrics'') session_c1 = session_c1"
  using subscribe_idempotent[of "''c1''" "Topic ''metrics''" session_c1]
        subscribe_idempotent[of "''c1''" "Topic ''cpu''" busy_c1]
        subscribe_idempotent[of "''c2''" "Topic ''metrics''" session_c1]
  by (simp add: example_defs init_def subscribe_def unsubscribe_def)


subsection \<open>C7: listing containers without a container runtime\<close>

text \<open>
  C7 does not hold of the definition in effect. With the \<open>docker\<close> binary missing
  (\<open>subprocess.run\<close> raises \<open>FileNotFoundError\<close>), and with the daemon unreachable
  (\<open>docker ps\<close> exits with code 1), \<open>get_docker_containers\<close> raises instead of returning
  the empty list. The earlier definition of the same name, which this one replaces,
  returns the empty list in both situations.
\<close>

theorem get_docker_containers_unavailable:
  "get_docker_containers FileNotFoundError = Inl ''Docker command not found'' \<and>
   get_docker_containers (Completed 1 [] ''Cannot connect to the Docker daemon'') =
     Inl ''Failed to get containers: Docker ps command failed: Cannot connect to the Docker daemon'' \<and>
   get_docker_containers_first FileNotFoundError FileNotFoundError = Inr [] \<and>
   get_docker_containers_first (Completed 0 [] [])
     (Completed 1 [] ''Cannot connect to the Docker daemon'') = Inr []"
  by (simp add: get_docker_containers_def get_docker_containers_first_def)


subsection \<open>C8: connecting with a key that is already registered\<close>

text \<open>
  C8: \<open>connect\<close> with a key that has a channel succeeds without any other effect: the
  channel of the key is replaced by the new socket, its subscription set becomes empty,
  and the recorded background tasks, the scheduled tasks and the effects are as before,
  so the task recorded for the key is neither cancelled nor removed.
\<close>

theorem connect_overwrites:
  assumes "active_connections w k = Some old"
  shows "\<exists>w'. connect ws k True w = Some w' \<and>
           active_connections w' = (active_connections w)(k \<mapsto> ws) \<and>
           subscriptions w' = (subscriptions w)(k \<mapsto> {}) \<and>
           background_tasks w' = background_tasks w \<and>
           tasks w' = tasks w \<and> trace w' = trace w"
  by (simp add: connect_def)

theorem connect_overwrites_witness:
  "active_connections busy_c1 ''c1'' = Some (WebSocket 0) \<and>
   (\<exists>w'. connect (WebSocket 1) ''c1'' True busy_c1 = Some w' \<and>
      active_connections w' ''c1'' = Some (WebSocket 1) \<and>
      subscriptions w' ''c1'' = Some {} \<and>
      background_tasks w' ''c1'' = Some 0 \<and>
      tasks w' = [(HandleContainerAction ''c1'' (JStr ''abc'') (JStr ''restart''), Pending)] \<and>
      trace w' = [])"
  using connect_overwrites[of busy_c1 "''c1''" "WebSocket 0" "WebSocket 1"]
  by (auto simp add: example_defs init_def)


subsection \<open>C9: the result of killing a process\<close>

text \<open>
  C9: \<open>kill_process\<close> never returns \<open>False\<close>. It returns \<open>True\<close> exactly when
  \<open>psutil.Process\<close> and \<open>terminate\<close> return and \<open>wait\<close> returns or times out with \<open>kill\<close>
  returning; on every other path it raises: the exception of a \<open>psutil\<close> call is
  turned into an exception by one of the three \<open>except\<close> clauses, none of which
  returns. Hence the reply of the endpoint to a \<open>kill_process\<close> request is either a
  \<open>process_kill_result\<close> with \<open>success = True\<close> and the text of the \<open>killed\<close> branch, or an
  \<open>error\<close> message; and along every schedule of the endpoint and its tasks each
  \<open>process_kill_result\<close> that is pushed or written carries \<open>success = True\<close> and the
  \<open>killed\<close> text, never the \<open>failed to kill\<close> text.
\<close>

theorem kill_process_never_false:
  "kill_process e \<noteq> Inr False \<and>
   (kill_process e = Inr True \<or> (\<exists>msg. kill_process e = Inl msg)) \<and>
   (kill_process e = Inr True \<longleftrightarrow>
      ps_Process e = None \<and> ps_terminate e = None \<and>
      (ps_wait e = None \<or> (\<exists>s. ps_wait e = Some (Ps_TimeoutExpired s)) \<and> ps_kill e = None)) \<and>
   (\<forall>msg. kill_process e = Inl msg \<longrightarrow>
      (\<exists>x. kill_process_except x = Inl msg \<and>
           (ps_Process e = Some x \<or> ps_terminate e = Some x \<or> ps_wait e = Some x \<or>
            ps_kill e = Some x))) \<and>
   (\<forall>x. \<exists>msg. kill_process_except x = Inl msg) \<and>
   (dict_get d ''type'' JNull = JStr ''kill_process'' \<longrightarrow>
      handle_message k (JObj d) e w =
        Inr (send_personal_message
               (case kill_process e of
                  Inr success \<Rightarrow>
                    Process_kill_result (dict_get d ''pid'' JNull) True
                      [Lit ''Process '', Str (dict_get d ''pid'' JNull), Lit '' '', Lit ''killed'']
                | Inl err \<Rightarrow> Error_msg (''Failed to kill process: '' @ err))
               k (wr e) w)) \<and>
   (kill_replies_ok w \<longrightarrow> kill_replies_ok (snd (run k ss (l, w)))) \<and>
   kill_replies_ok (snd (websocket_endpoint ws k a ss init))"
proof (intro conjI)
  show nf: "kill_process e \<noteq> Inr False" using kill_process_true[of e False] by auto
  show "kill_process e = Inr True \<or> (\<exists>msg. kill_process e = Inl msg)"
    using nf by (cases "kill_process e") auto
  show "kill_process e = Inr True \<longleftrightarrow>
      ps_Process e = None \<and> ps_terminate e = None \<and>
      (ps_wait e = None \<or> (\<exists>s. ps_wait e = Some (Ps_TimeoutExpired s)) \<and> ps_kill e = None)"
    by (rule kill_process_returns)
  show "\<forall>msg. kill_process e = Inl msg \<longrightarrow>
      (\<exists>x. kill_process_except x = Inl msg \<and>
           (ps_Process e = Some x \<or> ps_terminate e = Some x \<or> ps_wait e = Some x \<or>
            ps_kill e = Some x))"
    using kill_process_raises by blast
  show "\<forall>x. \<exists>msg. kill_process_except x = Inl msg"
    using kill_process_except_raises by blast
  show "dict_get d ''type'' JNull = JStr ''kill_process'' \<longrightarrow>
      handle_message k (JObj d) e w =
        Inr (send_personal_message
               (case kill_process e of
                  Inr success \<Rightarrow>
                    Process_kill_result (dict_get d ''pid'' JNull) True
                      [Lit ''Process '', Str (dict_get d ''pid'' JNull), Lit '' '', Lit ''killed'']
                | Inl err \<Rightarrow> Error_msg (''Failed to kill process: '' @ err))
               k (wr e) w)"
    using kill_process_reply by blast
  show "kill_replies_ok w \<longrightarrow> kill_replies_ok (snd (run k ss (l, w)))"
    using kro_run[of "(l, w)" k ss] by auto
  have "kill_replies_ok init" by (simp add: init_def kill_replies_ok_def)
  then show "kill_replies_ok (snd (websocket_endpoint ws k a ss init))"
    by (auto simp: websocket_endpoint_def connect_def kill_replies_ok_def
        intro!: kro_run[unfolded kill_replies_ok_def] split: option.splits)
qed

theorem kill_process_never_false_witness:
  "kill_process env_ok = Inr True \<and>
   kill_process env_slow = Inr True \<and>
   kill_process env_no_process = Inl ''Process not found'' \<and>
   kill_process env_denied = Inl ''Permission denied to kill process'' \<and>
   kill_replies_ok session_c1 \<and>
   kill_replies_ok (snd (run ''c1'' [Recv (Payload kill_process_request) env_ok]
                          (Running, session_c1))) \<and>
   trace (snd (run ''c1'' [Recv (Payload kill_process_request) env_ok] (Running, session_c1))) =
     [Push ''c1'' (Process_kill_result (JInt 999999) True
                     [Lit ''Process '', Str (JInt 999999), Lit '' '', Lit ''killed'']),
      Write (WebSocket 0) (Process_kill_result (JInt 999999) True
                     [Lit ''Process '', Str (JInt 999999), Lit '' '', Lit ''killed'']) True] \<and>
   trace (snd (run ''c1'' [Recv (Payload kill_process_request) env_no_process]
                 (Running, session_c1))) =
     [Push ''c1'' (Error_msg ''Failed to kill process: Process not found''),
      Write (WebSocket 0) (Error_msg ''Failed to kill process: Process not found'') True]"
  using kill_process_never_false
          [where e = env_ok and w = session_c1 and k = "''c1''" and l = Running
             and ss = "[Recv (Payload kill_process_request) env_ok]"
             and d = "[(''type'', JStr ''kill_process''), (''pid'', JInt 999999)]"]
        kill_process_never_false
          [where e = env_no_process and w = session_c1 and k = "''c1''" and l = Running
             and ss = "[Recv (Payload kill_process_request) env_no_process]"
             and d = "[(''type'', JStr ''kill_process''), (''pid'', JInt 999999)]"]
        kill_process_never_false[where e = env_slow]
        kill_process_never_false[where e = env_denied]
  by (simp add: example_defs model_defs kill_replies_ok_def kill_process_except_def)


subsection \<open>C10: channels and subscription sets have the same keys\<close>

text \<open>
  C10: the registry starts with no channel and no subscription set, and \<open>connect\<close>,
  \<open>disconnect\<close>, \<open>subscribe\<close>, \<open>unsubscribe\<close> and \<open>send_personal_message\<close> each preserve
  that a key has a channel exactly when it has a subscription set.
\<close>

theorem consistent_preserved:
  "consistent init \<and>
   (consistent w \<longrightarrow>
      (\<forall>w'. connect ws k a w = Some w' \<longrightarrow> consistent w') \<and>
      consistent (disconnect k w) \<and>
      consistent (subscribe k t w) \<and>
      consistent (unsubscribe k t w) \<and>
      consistent (send_personal_message m k sent w))"
  by (auto simp: consistent_def init_def connect_def disconnect_fields subscribe_def
      unsubscribe_def send_personal_message_def Let_def split: option.splits if_splits)

theorem consistent_preserved_witness:
  "consistent session_c1 \<and>
   consistent (disconnect ''c1'' session_c1) \<and>
   consistent (subscribe ''c1'' (Topic ''metrics'') session_c1) \<and>
   consistent (unsubscribe ''c1'' (Topic ''metrics'') session_c1) \<and>
   consistent (send_personal_message (Error_msg ''x'') ''c1'' False session_c1) \<and>
   (\<exists>w'. connect (WebSocket 1) ''c1'' True session_c1 = Some w' \<and> consistent w')"
  using consistent_preserved
          [of session_c1 "WebSocket 1" "''c1''" True "Topic ''metrics''" "Error_msg ''x''" False]
  by (simp add: consistent_def example_defs init_def connect_def)

end
